theory Spec2Isabelle
  imports Main "HOL-Library.Sublist" "HOL-Library.Log_Nat"
begin

section \<open>Python text\<close>

text \<open>
  A Python \<open>str\<close> is modelled as a \<^typ>\<open>string\<close> whose characters are the code points
  0..255 (Latin-1), so that \<open>lower\<close>, \<open>strip\<close>, \<open>in\<close> and \<open>replace\<close> below are the
  built-ins restricted to text in that range.
\<close>

definition char_code :: "char \<Rightarrow> nat" where
  "char_code c = of_char c"

text \<open>\<open>str.lower\<close>: A-Z and the Latin-1 capitals (0xC0-0xDE except the sign 0xD7).\<close>

definition lower_char :: "char \<Rightarrow> char" where
  "lower_char c =
     (let n = char_code c
      in if (65 \<le> n \<and> n \<le> 90) \<or> (192 \<le> n \<and> n \<le> 222 \<and> n \<noteq> 215)
         then char_of (n + 32) else c)"

definition lower :: "string \<Rightarrow> string" where
  "lower s = map lower_char s"

text \<open>\<open>str.isspace\<close> on one character: what \<open>str.strip()\<close> removes at both ends.\<close>

definition is_space :: "char \<Rightarrow> bool" where
  "is_space c =
     (let n = char_code c
      in (9 \<le> n \<and> n \<le> 13) \<or> (28 \<le> n \<and> n \<le> 32) \<or> n = 133 \<or> n = 160)"

definition strip_with :: "(char \<Rightarrow> bool) \<Rightarrow> string \<Rightarrow> string" where
  "strip_with ws s = rev (dropWhile ws (rev (dropWhile ws s)))"

definition strip :: "string \<Rightarrow> string" where
  "strip s = strip_with is_space s"

text \<open>\<open>sub in s\<close>: \<open>sub\<close> occurs in \<open>s\<close> as a contiguous run.\<close>

fun contains :: "string \<Rightarrow> string \<Rightarrow> bool" where
  "contains sub [] = (sub = [])"
| "contains sub (c # cs) = (prefix sub (c # cs) \<or> contains sub cs)"

text \<open>
  \<open>s.replace(old, new)\<close>: the occurrences of \<open>old\<close> are replaced from the left, without
  overlap; an empty \<open>old\<close> matches before every character and at the end.
\<close>

function replace_from :: "string \<Rightarrow> string \<Rightarrow> string \<Rightarrow> string" where
  "replace_from old new [] = []"
| "replace_from old new (c # cs) =
     (if old \<noteq> [] \<and> prefix old (c # cs)
      then new @ replace_from old new (drop (length old) (c # cs))
      else c # replace_from old new cs)"
  by pat_completeness auto
termination
  by (relation "measure (\<lambda>(old, new, s). length s)") (auto simp: neq_Nil_conv)

definition replace :: "string \<Rightarrow> string \<Rightarrow> string \<Rightarrow> string" where
  "replace old new s =
     (if old = [] then new @ concat (map (\<lambda>c. c # new) s) else replace_from old new s)"

section \<open>Python floats\<close>

text \<open>
  A \<open>float\<close> is an IEEE binary64 value: a finite number (kept as the rational it denotes),
  an infinity, or a NaN. \<open>float_le\<close> is \<open><=\<close>: false whenever a NaN is compared.
\<close>

datatype pyfloat = Finite rat | PosInf | NegInf | NaN

fun float_le :: "pyfloat \<Rightarrow> pyfloat \<Rightarrow> bool" where
  "float_le NaN y = False"
| "float_le x NaN = False"
| "float_le NegInf y = True"
| "float_le x PosInf = True"
| "float_le (Finite a) (Finite b) = (a \<le> b)"
| "float_le x y = False"

definition pow2 :: "int \<Rightarrow> rat" where
  "pow2 e = (if 0 \<le> e then 2 ^ nat e else 1 / 2 ^ nat (- e))"

definition pow10 :: "int \<Rightarrow> rat" where
  "pow10 e = (if 0 \<le> e then 10 ^ nat e else 1 / 10 ^ nat (- e))"

text \<open>Rounding of an exact value to binary64: to the nearest, ties to the even mantissa.\<close>

definition round_half_even :: "rat \<Rightarrow> int" where
  "round_half_even x =
     (let f = \<lfloor>x\<rfloor>; d = x - of_int f
      in if d < 1 / 2 then f else if 1 / 2 < d then f + 1 else if even f then f else f + 1)"

definition floor_log2 :: "rat \<Rightarrow> int" where
  "floor_log2 q =
     (let (n, d) = quotient_of q;
          k = bitlen n - bitlen d
      in if pow2 k \<le> q then k else k - 1)"

text \<open>
  The value \<open>a\<close> with \<open>2 ^ e \<le> a < 2 ^ (e + 1)\<close> is rounded to a multiple of
  \<open>2 ^ (e - 52)\<close> (of \<open>2 ^ (- 1074)\<close> below the normal range). It overflows to an
  infinity when the rounded value reaches \<open>2 ^ 1024\<close>: when \<open>e\<close> is above 1023, or is
  1023 and the mantissa rounds up to \<open>2 ^ 53\<close>.
\<close>

definition to_double :: "rat \<Rightarrow> pyfloat" where
  "to_double q =
     (let a = \<bar>q\<bar>
      in if a = 0 then Finite 0
         else let e = max (floor_log2 a) (- 1022);
                  m = round_half_even (a / pow2 (e - 52))
              in if 1024 \<le> e \<or> (e = 1023 \<and> m = 2 ^ 53)
                 then (if q < 0 then NegInf else PosInf)
                 else Finite ((if q < 0 then - 1 else 1) * of_int m * pow2 (e - 52)))"

text \<open>
  The literals of \<open>is_valid_rate\<close>. \<open>0.0000001\<close> is not a binary64 value: the literal
  denotes the nearest one, \<open>0x1.ad7f29abcaf48p-24\<close>, just below one ten-millionth.
  \<open>100.0\<close> is exact.
\<close>

definition rate_min :: pyfloat where
  "rate_min = Finite (944473296573929 / 9444732965739290427392)"

definition rate_max :: pyfloat where
  "rate_max = Finite 100"

subsection \<open>The built-in \<open>float(str)\<close>\<close>

text \<open>
  \<open>py_float\<close> is the built-in on Latin-1 text: \<open>None\<close> is \<open>ValueError\<close>. Leading and
  trailing whitespace is dropped, an underscore may stand between two digits, then comes
  an optional sign and either \<open>inf\<close>, \<open>infinity\<close>, \<open>nan\<close> (any case) or a decimal number
  with an optional exponent, rounded to binary64.
\<close>

definition is_digit :: "char \<Rightarrow> bool" where
  "is_digit c = (48 \<le> char_code c \<and> char_code c \<le> 57)"

definition digits_value :: "string \<Rightarrow> int" where
  "digits_value ds = foldl (\<lambda>n c. 10 * n + (int (char_code c) - 48)) 0 ds"

definition is_float_space :: "char \<Rightarrow> bool" where
  "is_float_space c =
     (let n = char_code c in (9 \<le> n \<and> n \<le> 13) \<or> n = 32 \<or> n = 133 \<or> n = 160)"

fun drop_underscores :: "char \<Rightarrow> string \<Rightarrow> string option" where
  "drop_underscores prev [] = (if prev = CHR ''_'' then None else Some [])"
| "drop_underscores prev (c # cs) =
     (if c = CHR ''_''
      then (if is_digit prev then drop_underscores c cs else None)
      else if prev = CHR ''_'' \<and> \<not> is_digit c then None
      else map_option ((#) c) (drop_underscores c cs))"

definition split_sign :: "string \<Rightarrow> bool \<times> string" where
  "split_sign s =
     (case s of
        c # r \<Rightarrow> if c = CHR ''-'' then (True, r) else if c = CHR ''+'' then (False, r)
                 else (False, s)
      | [] \<Rightarrow> (False, s))"

definition parse_exponent :: "string \<Rightarrow> int option" where
  "parse_exponent s =
     (case s of
        [] \<Rightarrow> Some 0
      | c # r \<Rightarrow>
          if c = CHR ''e'' \<or> c = CHR ''E''
          then (let (neg, ds) = split_sign r
                in if ds \<noteq> [] \<and> list_all is_digit ds
                   then Some (if neg then - digits_value ds else digits_value ds)
                   else None)
          else None)"

definition parse_number :: "string \<Rightarrow> rat option" where
  "parse_number s =
     (let ip = takeWhile is_digit s; r1 = dropWhile is_digit s;
          (fp, r2) = (case r1 of
                        c # r \<Rightarrow> if c = CHR ''.''
                                 then (takeWhile is_digit r, dropWhile is_digit r)
                                 else ([], r1)
                      | [] \<Rightarrow> ([], r1))
      in if ip = [] \<and> fp = [] then None
         else case parse_exponent r2 of
                None \<Rightarrow> None
              | Some ex \<Rightarrow> Some (of_int (digits_value (ip @ fp)) * pow10 (ex - int (length fp))))"

definition py_float :: "string \<Rightarrow> pyfloat option" where
  "py_float s =
     (case drop_underscores (CHR 0x00) (strip_with is_float_space s) of
        None \<Rightarrow> None
      | Some u \<Rightarrow>
          (let (neg, body) = split_sign u
           in if lower body = ''inf'' \<or> lower body = ''infinity''
              then Some (if neg then NegInf else PosInf)
              else if lower body = ''nan'' then Some NaN
              else map_option (\<lambda>q. to_double (if neg then - q else q)) (parse_number body)))"

section \<open>Exceptions and truth values\<close>

text \<open>
  The handlers of the scripts tell three kinds of exception apart, and so does the model.
  \<open>OtherException\<close> is any other subclass of \<open>Exception\<close>; \<open>KeyboardInterrupt\<close> stands
  for the subclasses of \<open>BaseException\<close> outside \<open>Exception\<close> (\<open>KeyboardInterrupt\<close>,
  \<open>SystemExit\<close>), which \<open>except Exception\<close> lets through and a bare \<open>except\<close> catches.
  A call that may raise has a result of type \<open>py_exn + 'a\<close>: \<open>Inl\<close> the exception.
\<close>

datatype py_exn = ImportError | ValueError | RuntimeError | OtherException | KeyboardInterrupt

definition is_Exception :: "py_exn \<Rightarrow> bool" where
  "is_Exception e = (e \<noteq> KeyboardInterrupt)"

text \<open>Truth value of a variable that holds \<open>None\<close> or a \<open>str\<close>.\<close>

fun truthy :: "string option \<Rightarrow> bool" where
  "truthy None = False"
| "truthy (Some s) = (s \<noteq> [])"

section \<open>The rate extractor (\<open>scripts/cbuae_extractor.py\<close>)\<close>

text \<open>
  \<open>is_valid_rate\<close>: the parameter \<open>float\<close> stands for the built-in \<open>float\<close>; its
  \<open>None\<close> is the exception that the bare \<open>except\<close> turns into \<open>False\<close>.
\<close>

definition is_valid_rate :: "(string \<Rightarrow> pyfloat option) \<Rightarrow> string \<Rightarrow> bool" where
  "is_valid_rate float text =
     (let clean_text = replace '','' [] (replace '' '' [] text)
      in case float clean_text of
           None \<Rightarrow> False
         | Some rate \<Rightarrow> float_le rate_min rate \<and> float_le rate rate_max)"

subsection \<open>The page as the browser shows it\<close>

text \<open>
  A cell is what reading \<open>cell.text\<close> gives, a row what
  \<open>row.find_elements(By.TAG_NAME, "td")\<close> gives; each may raise. The record holds the
  outcome of every browser step of \<open>setup_chrome_driver\<close> and \<open>extract_exchange_rates\<close>.
\<close>

type_synonym cell = "py_exn + string"
type_synonym row = "py_exn + cell list"

record browser =
  import_selenium :: "py_exn + unit"
  chrome_system :: "py_exn + unit"
  chrome_manager :: "py_exn + unit"
  get_page :: "py_exn + unit"
  agree_and_continue :: "py_exn + unit"
  find_table :: "py_exn + row list"
  quit :: "py_exn + unit"

text \<open>
  \<open>setup_chrome_driver\<close>: \<open>True\<close> is a driver, \<open>False\<close> is \<open>None\<close>. Only \<open>ImportError\<close>
  is caught around the imports; the fallback to \<open>webdriver_manager\<close> sits under a bare
  \<open>except\<close>.
\<close>

definition setup_chrome_driver :: "browser \<Rightarrow> py_exn + bool" where
  "setup_chrome_driver env =
     (case import_selenium env of
        Inl e \<Rightarrow> if e = ImportError then Inr False else Inl e
      | Inr _ \<Rightarrow>
          (case chrome_system env of
             Inr _ \<Rightarrow> Inr True
           | Inl e \<Rightarrow>
               if is_Exception e
               then (case chrome_manager env of Inr _ \<Rightarrow> Inr True | Inl _ \<Rightarrow> Inr False)
               else Inl e))"

subsection \<open>\<open>found_currencies\<close>: a dict\<close>

text \<open>
  A dict keeps its keys in insertion order; \<open>d[k] = v\<close> replaces the value of a key that
  is present and appends a new key otherwise.
\<close>

type_synonym dict = "(string \<times> string) list"

fun dict_set :: "dict \<Rightarrow> string \<Rightarrow> string \<Rightarrow> dict" where
  "dict_set [] k v = [(k, v)]"
| "dict_set ((k', v') # d) k v =
     (if k' = k then (k', v) # d else (k', v') # dict_set d k v)"

definition dict_get :: "dict \<Rightarrow> string \<Rightarrow> string option" where
  "dict_get d k = map_of d k"

subsection \<open>One row\<close>

text \<open>\<open>[cell.text.strip() for cell in cells]\<close>: the first cell that raises ends it.\<close>

fun cell_texts :: "cell list \<Rightarrow> py_exn + string list" where
  "cell_texts [] = Inr []"
| "cell_texts (c # cs) =
     (case c of
        Inl e \<Rightarrow> Inl e
      | Inr t \<Rightarrow> (case cell_texts cs of Inl e \<Rightarrow> Inl e | Inr ts \<Rightarrow> Inr (strip t # ts)))"

text \<open>
  Lines 104-110: the outer loop runs over the cell texts, the inner one over the targets;
  \<open>currency_found\<close> keeps its value from one cell to the next, and the outer loop stops
  once it is true.
\<close>

fun find_currency :: "string list \<Rightarrow> string option \<Rightarrow> string list \<Rightarrow> string option" where
  "find_currency target_currencies currency_found [] = currency_found"
| "find_currency target_currencies currency_found (text # texts) =
     (let cf = (if list_ex (\<lambda>target. contains (lower target) (lower text)) target_currencies
                then Some text else currency_found)
      in if truthy cf then cf else find_currency target_currencies cf texts)"

text \<open>Lines 113-116: the first cell text that is a valid rate.\<close>

fun find_rate :: "(string \<Rightarrow> pyfloat option) \<Rightarrow> string list \<Rightarrow> string option" where
  "find_rate float [] = None"
| "find_rate float (text # texts) =
     (if is_valid_rate float text then Some text else find_rate float texts)"

text \<open>Lines 101-118: the pair that the texts of one row give, if any.\<close>

definition match_row ::
  "(string \<Rightarrow> pyfloat option) \<Rightarrow> string list \<Rightarrow> string list \<Rightarrow> (string \<times> string) option" where
  "match_row float target_currencies all_texts =
     (let currency_found = find_currency target_currencies None all_texts;
          rate_found = (if truthy currency_found then find_rate float all_texts else None)
      in case (currency_found, rate_found) of
           (Some c, Some r) \<Rightarrow> if c \<noteq> [] \<and> r \<noteq> [] then Some (c, r) else None
         | _ \<Rightarrow> None)"

text \<open>Lines 93-119, the body of the \<open>try\<close> for one row.\<close>

definition row_body ::
  "(string \<Rightarrow> pyfloat option) \<Rightarrow> string list \<Rightarrow> dict \<Rightarrow> row \<Rightarrow> py_exn + dict" where
  "row_body float target_currencies found_currencies row =
     (case row of
        Inl e \<Rightarrow> Inl e
      | Inr cells \<Rightarrow>
          if 2 \<le> length cells
          then (case cell_texts cells of
                  Inl e \<Rightarrow> Inl e
                | Inr all_texts \<Rightarrow>
                    (case match_row float target_currencies all_texts of
                       Some (c, r) \<Rightarrow> Inr (dict_set found_currencies c r)
                     | None \<Rightarrow> Inr found_currencies))
          else Inr found_currencies)"

text \<open>Lines 91-122: the loop over the rows; \<open>except Exception: continue\<close>.\<close>

fun scan_rows ::
  "(string \<Rightarrow> pyfloat option) \<Rightarrow> string list \<Rightarrow> dict \<Rightarrow> row list \<Rightarrow> py_exn + dict" where
  "scan_rows float target_currencies found_currencies [] = Inr found_currencies"
| "scan_rows float target_currencies found_currencies (row # rows) =
     (case row_body float target_currencies found_currencies row of
        Inl e \<Rightarrow>
          if is_Exception e then scan_rows float target_currencies found_currencies rows
          else Inl e
      | Inr found \<Rightarrow> scan_rows float target_currencies found rows)"

subsection \<open>\<open>extract_exchange_rates\<close>\<close>

text \<open>
  The result is \<open>Inr None\<close> for \<open>None\<close>, \<open>Inr (Some d)\<close> for a dict, \<open>Inl e\<close> when \<open>e\<close>
  reaches the caller. The disclaimer step is under a bare \<open>except\<close>; the rest of the
  \<open>try\<close> is under \<open>except Exception\<close>; \<open>driver.quit()\<close> runs in the \<open>finally\<close>, and an
  exception of its own replaces the pending result.
\<close>

definition try_body ::
  "(string \<Rightarrow> pyfloat option) \<Rightarrow> browser \<Rightarrow> string list \<Rightarrow> py_exn + dict option" where
  "try_body float env target_currencies =
     (case get_page env of
        Inl e \<Rightarrow> Inl e
      | Inr _ \<Rightarrow>
          (case agree_and_continue env of
             _ \<Rightarrow>
               (case find_table env of
                  Inl e \<Rightarrow> Inl e
                | Inr rows \<Rightarrow>
                    (case scan_rows float target_currencies [] rows of
                       Inl e \<Rightarrow> Inl e
                     | Inr found_currencies \<Rightarrow>
                         Inr (if found_currencies \<noteq> [] then Some found_currencies
                              else None)))))"

definition extract_exchange_rates ::
  "(string \<Rightarrow> pyfloat option) \<Rightarrow> browser \<Rightarrow> string list \<Rightarrow> py_exn + dict option" where
  "extract_exchange_rates float env target_currencies =
     (case setup_chrome_driver env of
        Inl e \<Rightarrow> Inl e
      | Inr driver \<Rightarrow>
          if \<not> driver then Inr None
          else (let result = (case try_body float env target_currencies of
                                Inl e \<Rightarrow> if is_Exception e then Inr None else Inl e
                              | Inr r \<Rightarrow> Inr r)
                in case quit env of Inl e \<Rightarrow> Inl e | Inr _ \<Rightarrow> result))"

subsection \<open>Notions used to state the properties of the extractor\<close>

text \<open>
  The pair that a row adds to \<open>found_currencies\<close>: what the body of the \<open>try\<close> leaves in
  an empty dict. \<open>None\<close> when the row raises, is too short or gives no pair.
\<close>

definition row_pair ::
  "(string \<Rightarrow> pyfloat option) \<Rightarrow> string list \<Rightarrow> row \<Rightarrow> (string \<times> string) option" where
  "row_pair float target_currencies row =
     (case row_body float target_currencies [] row of
        Inl e \<Rightarrow> None
      | Inr d \<Rightarrow> (case d of [p] \<Rightarrow> Some p | _ \<Rightarrow> None))"

text \<open>
  The closed interval between the two literals of \<open>is_valid_rate\<close>, as exact values
  (see \<open>rate_min\<close> for the lower one).
\<close>

definition rate_interval :: "rat set" where
  "rate_interval = {944473296573929 / 9444732965739290427392 .. 100}"

text \<open>
  The matching rule as the specification words it, for comparison with \<open>find_currency\<close>:
  the target fragments are scanned in the caller's order, and the first fragment that
  occurs in some cell decides; the currency is the text of the first cell holding it.
\<close>

fun fragment_major_currency :: "string list \<Rightarrow> string list \<Rightarrow> string option" where
  "fragment_major_currency [] texts = None"
| "fragment_major_currency (target # targets) texts =
     (case find (\<lambda>text. contains (lower target) (lower text)) texts of
        Some text \<Rightarrow> Some text
      | None \<Rightarrow> fragment_major_currency targets texts)"

text \<open>A browser in which every step succeeds and the table has the given rows.\<close>

definition showing :: "row list \<Rightarrow> browser" where
  "showing rows =
     \<lparr>import_selenium = Inr (), chrome_system = Inr (), chrome_manager = Inr (),
      get_page = Inr (), agree_and_continue = Inr (), find_table = Inr rows, quit = Inr ()\<rparr>"

text \<open>The currency of a row once the test \<open>if currency_found\<close> has passed.\<close>

definition matched_currency :: "string list \<Rightarrow> string list \<Rightarrow> string option" where
  "matched_currency target_currencies all_texts =
     (let currency_found = find_currency target_currencies None all_texts
      in if truthy currency_found then currency_found else None)"

text \<open>
  The exception that reading a row raises, if any: from \<open>find_elements\<close>, or from the
  \<open>text\<close> of a cell when the row has the two cells that make the code read them.
\<close>

definition row_exception :: "row \<Rightarrow> py_exn option" where
  "row_exception row =
     (case row of
        Inl e \<Rightarrow> Some e
      | Inr cells \<Rightarrow>
          if 2 \<le> length cells
          then (case cell_texts cells of Inl e \<Rightarrow> Some e | Inr _ \<Rightarrow> None)
          else None)"

text \<open>
  Every exception that a step of the browser raises is of class \<open>Exception\<close>, and the
  import of selenium raises nothing but \<open>ImportError\<close>.
\<close>

definition raises_only_Exception :: "browser \<Rightarrow> bool" where
  "raises_only_Exception env =
     ((import_selenium env = Inr () \<or> import_selenium env = Inl ImportError)
      \<and> chrome_system env \<noteq> Inl KeyboardInterrupt
      \<and> get_page env \<noteq> Inl KeyboardInterrupt
      \<and> find_table env \<noteq> Inl KeyboardInterrupt
      \<and> (case find_table env of
            Inl _ \<Rightarrow> True
          | Inr rows \<Rightarrow> list_all (\<lambda>row. row_exception row \<noteq> Some KeyboardInterrupt) rows))"

text \<open>The same browser, its table without the rows that raise.\<close>

definition without_failing_rows :: "browser \<Rightarrow> browser" where
  "without_failing_rows env =
     env\<lparr>find_table :=
           (case find_table env of
              Inl e \<Rightarrow> Inl e
            | Inr rows \<Rightarrow> Inr (filter (\<lambda>row. row_exception row = None) rows))\<rparr>"

section \<open>Properties of the rate extractor\<close>

subsection \<open>Text and floats\<close>

lemma replace_from_char: "replace_from [c] [] s = filter (\<lambda>x. x \<noteq> c) s"
  by (induction s) auto

lemma replace_char: "replace [c] [] s = filter (\<lambda>x. x \<noteq> c) s"
  by (simp add: replace_def replace_from_char)

lemma float_le_range:
  "(float_le rate_min x \<and> float_le x rate_max) = (\<exists>q. x = Finite q \<and> q \<in> rate_interval)"
  by (cases x) (auto simp: rate_min_def rate_max_def rate_interval_def)

text \<open>Values of the built-in on the texts used in the examples below.\<close>

lemma py_float_3_5: "py_float ''3.5'' = Some (Finite (7 / 2))"
  by code_simp

lemma py_float_3_75: "py_float ''3.75'' = Some (Finite (15 / 4))"
  by code_simp

lemma py_float_USDollar: "py_float ''USDollar'' = None"
  by code_simp

lemma py_float_Euro: "py_float ''Euro'' = None"
  by code_simp

lemma py_float_empty: "py_float [] = None"
  by code_simp

text \<open>
  \<^bold>\<open>C3.\<close> \<open>is_valid_rate\<close> accepts a text exactly when the text without its spaces and
  commas parses as a float, and that float is a number of the closed interval between
  the literals \<open>0.0000001\<close> and \<open>100.0\<close>. A text that does not parse, a NaN, an infinity
  and a number outside the interval are rejected. This holds whatever the parser does.
\<close>

theorem is_valid_rate_exactly:
  "is_valid_rate float text =
     (\<exists>q. float (filter (\<lambda>c. c \<noteq> CHR '' '' \<and> c \<noteq> CHR '','') text) = Some (Finite q)
          \<and> q \<in> rate_interval)"
proof -
  have clean: "replace '','' [] (replace '' '' [] text)
      = filter (\<lambda>c. c \<noteq> CHR '' '' \<and> c \<noteq> CHR '','') text"
    by (simp add: replace_char conj_commute)
  show ?thesis
    unfolding is_valid_rate_def Let_def clean
    by (cases "float (filter (\<lambda>c. c \<noteq> CHR '' '' \<and> c \<noteq> CHR '','') text)")
       (simp_all add: float_le_range)
qed

theorem is_valid_rate_exactly_witness:
  "is_valid_rate py_float ''1,0 0.0''
   \<and> py_float (filter (\<lambda>c. c \<noteq> CHR '' '' \<and> c \<noteq> CHR '','') ''1,0 0.0'') = Some (Finite 100)
   \<and> (100 :: rat) \<in> rate_interval
   \<and> \<not> is_valid_rate py_float ''US Dollar''"
proof -
  have parsed: "py_float ''100.0'' = Some (Finite 100)"
    by code_simp
  have "is_valid_rate py_float ''1,0 0.0''"
    using is_valid_rate_exactly [of py_float "''1,0 0.0''"]
    by (simp add: parsed rate_interval_def)
  moreover have "\<not> is_valid_rate py_float ''US Dollar''"
    using is_valid_rate_exactly [of py_float "''US Dollar''"]
    by (simp add: py_float_USDollar)
  ultimately show ?thesis
    by (simp add: parsed rate_interval_def)
qed

text \<open>
  With the built-in itself: both ends of the interval are accepted, and so are texts
  that round to them; spaces and commas are dropped wherever they stand.
\<close>

lemma is_valid_rate_examples:
  "is_valid_rate py_float ''0.0000001''"
  "is_valid_rate py_float ''100''"
  "is_valid_rate py_float ''1,0 0.0''"
  "is_valid_rate py_float ''100.00000000000000001''"
  "\<not> is_valid_rate py_float ''100.0000000000001''"
  "\<not> is_valid_rate py_float ''0.00000009''"
  "\<not> is_valid_rate py_float ''nan''"
  "\<not> is_valid_rate py_float ''inf''"
  "\<not> is_valid_rate py_float ''US Dollar''"
  by code_simp+

subsection \<open>The dict and the loop over the rows\<close>

lemma dict_get_set: "dict_get (dict_set d k v) k' = (if k' = k then Some v else dict_get d k')"
  by (induction d) (auto simp: dict_get_def)

lemma row_body_found:
  "row_body float ts found row =
     (case row_body float ts [] row of
        Inl e \<Rightarrow> Inl e
      | Inr d \<Rightarrow> (case row_pair float ts row of
                    Some (c, r) \<Rightarrow> Inr (dict_set found c r) | None \<Rightarrow> Inr found))"
  by (auto simp: row_body_def row_pair_def split: sum.splits option.splits)

lemma scan_rows_append:
  "scan_rows float ts found (rows1 @ rows2) =
     (case scan_rows float ts found rows1 of
        Inl e \<Rightarrow> Inl e
      | Inr d \<Rightarrow> scan_rows float ts d rows2)"
  by (induction rows1 arbitrary: found) (auto split: sum.splits)

lemma scan_rows_keeps:
  "scan_rows float ts found rows = Inr d \<Longrightarrow>
   \<forall>row\<in>set rows. \<forall>r'. row_pair float ts row \<noteq> Some (c, r') \<Longrightarrow>
   dict_get d c = dict_get found c"
proof (induction rows arbitrary: found)
  case Nil
  then show ?case by simp
next
  case (Cons row rows)
  show ?case
  proof (cases "row_body float ts found row")
    case (Inl e)
    with Cons show ?thesis by (auto split: if_splits)
  next
    case (Inr found')
    have "dict_get found' c = dict_get found c"
      using Inr Cons.prems(2)
      by (subst (asm) row_body_found) (auto simp: dict_get_set split: sum.splits option.splits)
    moreover have "dict_get d c = dict_get found' c"
      using Cons Inr by auto
    ultimately show ?thesis by simp
  qed
qed

text \<open>Text operations on the cells of the examples.\<close>

lemma lower_examples:
  "lower ''US Dollar'' = ''us dollar''"
  "lower ''Euro'' = ''euro''"
  "lower ''3.5'' = ''3.5''"
  "lower ''3.75'' = ''3.75''"
  "lower ''3'' = ''3''"
  by code_simp+

lemma strip_examples:
  "strip ''US Dollar'' = ''US Dollar''"
  "strip ''Euro'' = ''Euro''"
  "strip ''3.5'' = ''3.5''"
  "strip ''3.75'' = ''3.75''"
  "strip [] = []"
  by code_simp+

lemma is_valid_rate_cells:
  "is_valid_rate py_float ''3.5''"
  "is_valid_rate py_float ''3.75''"
  "\<not> is_valid_rate py_float ''US Dollar''"
  "\<not> is_valid_rate py_float ''Euro''"
  "\<not> is_valid_rate py_float []"
  by (simp_all add: is_valid_rate_def replace_char py_float_3_5 py_float_3_75 py_float_USDollar
      py_float_Euro py_float_empty rate_min_def rate_max_def)

subsection \<open>Which rate a currency keeps\<close>

text \<open>
  \<^bold>\<open>C1\<close> as claimed: a later row with the same currency text and another valid rate does
  not overwrite the recorded rate. The code assigns \<open>found_currencies[currency_found]\<close>
  for every matching row, so it does overwrite: after the first row alone the rate is
  \<open>3.5\<close>, after both rows it is \<open>3.75\<close>.
\<close>

theorem first_seen_wins_counterexample:
  "extract_exchange_rates py_float
     (showing [Inr [Inr ''US Dollar'', Inr ''3.5'']]) [''US Dollar'']
     = Inr (Some [(''US Dollar'', ''3.5'')])
   \<and> extract_exchange_rates py_float
     (showing [Inr [Inr ''US Dollar'', Inr ''3.5''], Inr [Inr ''US Dollar'', Inr ''3.75'']])
     [''US Dollar'']
     = Inr (Some [(''US Dollar'', ''3.75'')])"
  by (simp add: extract_exchange_rates_def try_body_def setup_chrome_driver_def showing_def
      row_body_def match_row_def lower_examples strip_examples is_valid_rate_cells)

text \<open>
  \<^bold>\<open>C1\<close> as amended: the rows are processed in document order, and a currency text keeps
  the rate of the last row that gives a pair for it. If the loop over the rows ends with
  the dict \<open>d\<close>, the row \<open>row\<close> gives the pair \<open>(c, r)\<close> and no row after it gives a pair
  for \<open>c\<close>, then \<open>d\<close> maps \<open>c\<close> to \<open>r\<close>, whatever the rows before \<open>row\<close> recorded.
\<close>

theorem last_matching_row_wins:
  assumes "scan_rows float ts found (rows1 @ row # rows2) = Inr d"
    and "row_pair float ts row = Some (c, r)"
    and "\<forall>row'\<in>set rows2. \<forall>r'. row_pair float ts row' \<noteq> Some (c, r')"
  shows "dict_get d c = Some r"
proof -
  from assms(1) obtain d1 where d1: "scan_rows float ts found rows1 = Inr d1"
    and rest: "scan_rows float ts d1 (row # rows2) = Inr d"
    by (auto simp: scan_rows_append split: sum.splits)
  from assms(2) have "\<exists>d0. row_body float ts [] row = Inr d0"
    by (auto simp: row_pair_def split: sum.splits)
  with assms(2) have body: "row_body float ts d1 row = Inr (dict_set d1 c r)"
    by (subst row_body_found) auto
  with rest have "scan_rows float ts (dict_set d1 c r) rows2 = Inr d"
    by simp
  from scan_rows_keeps [OF this assms(3)] show ?thesis
    by (simp add: dict_get_set)
qed

theorem last_matching_row_wins_witness:
  "row_pair py_float [''US Dollar''] (Inr [Inr ''US Dollar'', Inr ''3.5''])
     = Some (''US Dollar'', ''3.5'')
   \<and> row_pair py_float [''US Dollar''] (Inr [Inr ''US Dollar'', Inr ''3.75''])
     = Some (''US Dollar'', ''3.75'')
   \<and> scan_rows py_float [''US Dollar''] []
       ([Inr [Inr ''US Dollar'', Inr ''3.5'']] @ Inr [Inr ''US Dollar'', Inr ''3.75''] # [])
     = Inr [(''US Dollar'', ''3.75'')]
   \<and> dict_get [(''US Dollar'', ''3.75'')] ''US Dollar'' = Some ''3.75''"
proof -
  have first: "row_pair py_float [''US Dollar''] (Inr [Inr ''US Dollar'', Inr ''3.5''])
      = Some (''US Dollar'', ''3.5'')"
    by (simp add: row_pair_def row_body_def match_row_def lower_examples strip_examples
        is_valid_rate_cells)
  have second: "row_pair py_float [''US Dollar''] (Inr [Inr ''US Dollar'', Inr ''3.75''])
      = Some (''US Dollar'', ''3.75'')"
    by (simp add: row_pair_def row_body_def match_row_def lower_examples strip_examples
        is_valid_rate_cells)
  have scan: "scan_rows py_float [''US Dollar''] []
       ([Inr [Inr ''US Dollar'', Inr ''3.5'']] @ Inr [Inr ''US Dollar'', Inr ''3.75''] # [])
      = Inr [(''US Dollar'', ''3.75'')]"
    by (simp add: row_body_def match_row_def lower_examples strip_examples
        is_valid_rate_cells)
  have none_after: "\<forall>row'\<in>set []. \<forall>r'.
      row_pair py_float [''US Dollar''] row' \<noteq> Some (''US Dollar'', r')"
    by simp
  from last_matching_row_wins [OF scan second none_after] first second scan
  show ?thesis by simp
qed

subsection \<open>Which cell names the currency\<close>

text \<open>
  \<^bold>\<open>C2\<close> as claimed: the target fragments are scanned in the caller's order and the first
  fragment found in any cell decides. The code scans the cells in the outer loop: with
  the targets \<open>Euro, US Dollar\<close> and the cells \<open>US Dollar, Euro, 3.5\<close> it takes
  \<open>US Dollar\<close>, the first cell that holds a fragment, where the claimed rule takes
  \<open>Euro\<close>, the cell of the first fragment.
\<close>

theorem fragment_order_counterexample:
  "matched_currency [''Euro'', ''US Dollar''] [''US Dollar'', ''Euro'', ''3.5'']
     = Some ''US Dollar''
   \<and> fragment_major_currency [''Euro'', ''US Dollar''] [''US Dollar'', ''Euro'', ''3.5'']
     = Some ''Euro''
   \<and> extract_exchange_rates py_float
       (showing [Inr [Inr ''US Dollar'', Inr ''Euro'', Inr ''3.5'']]) [''Euro'', ''US Dollar'']
     = Inr (Some [(''US Dollar'', ''3.5'')])"
  by (simp add: matched_currency_def extract_exchange_rates_def try_body_def
      setup_chrome_driver_def showing_def row_body_def match_row_def lower_examples
      strip_examples is_valid_rate_cells)

lemma find_currency_find:
  "\<not> truthy cf \<Longrightarrow>
   (let currency_found = find_currency ts cf texts
    in if truthy currency_found then currency_found else None)
     = find (\<lambda>t. t \<noteq> [] \<and> (\<exists>target\<in>set ts. contains (lower target) (lower t))) texts"
proof (induction texts arbitrary: cf)
  case Nil
  then show ?case by simp
next
  case (Cons t texts)
  define cf' where
    "cf' = (if list_ex (\<lambda>target. contains (lower target) (lower t)) ts then Some t else cf)"
  show ?case
  proof (cases "truthy cf'")
    case True
    with Cons.prems have "cf' = Some t" and "t \<noteq> []"
      and "\<exists>target\<in>set ts. contains (lower target) (lower t)"
      by (auto simp: cf'_def list_ex_iff split: if_splits)
    then show ?thesis
      using True by (simp add: cf'_def [symmetric] Let_def)
  next
    case False
    then have skip: "\<not> (t \<noteq> [] \<and> (\<exists>target\<in>set ts. contains (lower target) (lower t)))"
      by (auto simp: cf'_def list_ex_iff split: if_splits)
    have "find_currency ts cf (t # texts) = find_currency ts cf' texts"
      using False by (simp add: cf'_def [symmetric] Let_def)
    with Cons.IH [OF False] skip show ?thesis
      by (simp only: find.simps if_False)
  qed
qed

text \<open>
  \<^bold>\<open>C2\<close> as amended: the currency matched for a row is the text of the first cell, in cell
  order, that is not empty and in which some target fragment occurs without regard to
  case. The fragments enter only as a set: their order plays no part.
\<close>

theorem first_matching_cell_decides:
  "matched_currency target_currencies all_texts
     = find (\<lambda>t. t \<noteq> [] \<and>
               (\<exists>target\<in>set target_currencies. contains (lower target) (lower t)))
         all_texts"
  unfolding matched_currency_def by (rule find_currency_find) simp

theorem first_matching_cell_decides_witness:
  "matched_currency [''Euro'', ''US Dollar''] [''US Dollar'', ''Euro'', ''3.5'']
     = Some ''US Dollar''
   \<and> matched_currency [''US Dollar'', ''Euro''] [''US Dollar'', ''Euro'', ''3.5'']
     = Some ''US Dollar''"
  using first_matching_cell_decides [of "[''Euro'', ''US Dollar'']"
      "[''US Dollar'', ''Euro'', ''3.5'']"]
    first_matching_cell_decides [of "[''US Dollar'', ''Euro'']"
      "[''US Dollar'', ''Euro'', ''3.5'']"]
  by (simp add: lower_examples)

subsection \<open>Rows with fewer than two cells\<close>

text \<open>
  \<^bold>\<open>C9.\<close> A row with fewer than two cells records nothing: the loop over the rows gives
  the same result with the row as without it, whatever its cell holds. In the example
  the only cell, \<open>3.5\<close>, holds the target fragment \<open>3\<close> and is a valid rate; with a
  second, empty cell beside it the row would record the pair.
\<close>

theorem short_row_records_nothing:
  "length cells < 2 \<Longrightarrow>
   scan_rows float ts found (rows1 @ Inr cells # rows2)
     = scan_rows float ts found (rows1 @ rows2)"
  by (simp add: scan_rows_append row_body_def split: sum.splits)

theorem short_row_records_nothing_witness:
  "length [Inr ''3.5'' :: cell] < 2
   \<and> scan_rows py_float [''3''] [] ([] @ Inr [Inr ''3.5''] # []) = Inr []
   \<and> scan_rows py_float [''3''] [] [Inr [Inr ''3.5'', Inr []]] = Inr [(''3.5'', ''3.5'')]"
proof -
  have short: "length [Inr ''3.5'' :: cell] < 2"
    by simp
  have two_cells: "scan_rows py_float [''3''] [] [Inr [Inr ''3.5'', Inr []]]
      = Inr [(''3.5'', ''3.5'')]"
    by (simp add: row_body_def match_row_def lower_examples strip_examples
        is_valid_rate_cells)
  from short_row_records_nothing [OF short, of py_float "[''3'']" "[]" "[]" "[]"]
    short two_cells
  show ?thesis by simp
qed

end
